theory Spec2Isabelle
  imports Main "HOL-Library.Word"
begin

section \<open>Data model\<close>

text \<open>
  Both geometry programs declare \<^verbatim>\<open>struct Point { int x, y; }\<close>. The coordinates are
  C++ \<^verbatim>\<open>int\<close>, 32 bits wide on the usual targets. The programs are embedded at two
  levels. \<open>Point\<close> has integer coordinates and the functions on it compute with exact
  arithmetic: they are the programs on every input on which no difference or product
  overflows. \<open>Point32\<close> has machine coordinates and the functions on it compute in 32-bit
  two's complement, so that a result that does not fit wraps around (signed overflow is
  undefined behaviour in C++; wrapping is what the usual compilers produce). The lemmas
  whose names end in \<^verbatim>\<open>_exact\<close> relate the two levels: where nothing overflows, the machine
  functions return what the exact ones return. Indices are \<^verbatim>\<open>int\<close> in the source as
  well; they stay below \<^verbatim>\<open>points.size()\<close> and are natural numbers here.
\<close>

record Point =
  x :: int
  y :: int

section \<open>Jarvis march (\<^verbatim>\<open>geometry/jarvis_algorithm.cpp\<close>)\<close>

text \<open>\<^verbatim>\<open>ConvexHull::orientation\<close>: 0 for \<^verbatim>\<open>val == 0\<close>, 1 for \<^verbatim>\<open>val > 0\<close>, 2 otherwise.\<close>

definition orientation :: "Point \<Rightarrow> Point \<Rightarrow> Point \<Rightarrow> int" where
  "orientation p q r =
     (let val = (y q - y p) * (x r - x q) - (x q - x p) * (y r - y q)
      in if val = 0 then 0 else if val > 0 then 1 else 2)"

text \<open>
  The first loop of \<^verbatim>\<open>getHull\<close>: \<^verbatim>\<open>leftmost\<close> starts at 0 and \<^verbatim>\<open>i\<close> runs from 1 to
  \<^verbatim>\<open>points.size() - 1\<close>; a strictly smaller x replaces the index.
\<close>

definition find_leftmost :: "Point list \<Rightarrow> nat" where
  "find_leftmost points =
     fold (\<lambda>i leftmost. if x (points ! i) < x (points ! leftmost) then i else leftmost)
       [1..<length points] 0"

text \<open>
  One pass of the body of the inner \<^verbatim>\<open>for\<close> loop, for the index \<^verbatim>\<open>i\<close> and the running
  candidate \<^verbatim>\<open>q\<close>: \<^verbatim>\<open>if (orientation(points[p], points[i], points[q]) == 2) q = i;\<close>
\<close>

definition select_candidate :: "Point list \<Rightarrow> nat \<Rightarrow> nat \<Rightarrow> nat \<Rightarrow> nat" where
  "select_candidate points p i q =
     (if orientation (points ! p) (points ! i) (points ! q) = 2 then i else q)"

text \<open>
  The inner loop as a whole: \<^verbatim>\<open>q = (p + 1) % points.size()\<close>, then \<^verbatim>\<open>i\<close> runs over every
  index in increasing order.
\<close>

definition next_vertex :: "Point list \<Rightarrow> nat \<Rightarrow> nat" where
  "next_vertex points p =
     fold (select_candidate points p) [0..<length points] ((p + 1) mod length points)"

text \<open>
  The \<^verbatim>\<open>do { ... } while (p != leftmost)\<close> loop. Nothing in the source bounds the number
  of rounds, so the loop is a partial function: \<open>None\<close> stands for a run that never leaves
  the loop.
\<close>

partial_function (option) hull_loop ::
  "Point list \<Rightarrow> nat \<Rightarrow> nat \<Rightarrow> Point list \<Rightarrow> Point list option" where
  "hull_loop points leftmost p hull =
     (let hull' = hull @ [points ! p];
          q = next_vertex points p
      in if q \<noteq> leftmost then hull_loop points leftmost q hull' else Some hull')"

declare hull_loop.simps [code]

definition getHull :: "Point list \<Rightarrow> Point list option" where
  "getHull points =
     (if length points < 3 then Some []
      else let leftmost = find_leftmost points
           in hull_loop points leftmost leftmost [])"

text \<open>The point set of the program's own \<^verbatim>\<open>test()\<close>.\<close>

definition test_points :: "Point list" where
  "test_points =
     [\<lparr>x = 0, y = 3\<rparr>, \<lparr>x = 2, y = 2\<rparr>, \<lparr>x = 1, y = 1\<rparr>, \<lparr>x = 2, y = 1\<rparr>,
      \<lparr>x = 3, y = 0\<rparr>, \<lparr>x = 0, y = 0\<rparr>, \<lparr>x = 3, y = 3\<rparr>]"

text \<open>
  Four distinct points, three of them on the line x = 0. The first of the input, (0,1),
  lies between the other two on that line.
\<close>

definition edge_points :: "Point list" where
  "edge_points = [\<lparr>x = 0, y = 1\<rparr>, \<lparr>x = 0, y = 2\<rparr>, \<lparr>x = 0, y = 0\<rparr>, \<lparr>x = 1, y = 0\<rparr>]"

text \<open>
  The orientation primitive in the words of the specification: the cross product
  \<^verbatim>\<open>(q.y - p.y)*(r.x - q.x) - (q.x - p.x)*(r.y - q.y)\<close> of an ordered triplet, whose
  positive sign is the rotational sense the specification calls clockwise.
\<close>

definition cross_product :: "Point \<Rightarrow> Point \<Rightarrow> Point \<Rightarrow> int" where
  "cross_product p q r = (y q - y p) * (x r - x q) - (x q - x p) * (y r - y q)"

definition clockwise :: "Point \<Rightarrow> Point \<Rightarrow> Point \<Rightarrow> bool" where
  "clockwise p q r = (0 < cross_product p q r)"

section \<open>Segment intersection (\<^verbatim>\<open>geometry/line_segment_intersection.cpp\<close>)\<close>

definition direction :: "Point \<Rightarrow> Point \<Rightarrow> Point \<Rightarrow> int" where
  "direction p q r = (y r - y p) * (x q - x p) - (x r - x p) * (y q - y p)"

definition on_segment :: "Point \<Rightarrow> Point \<Rightarrow> Point \<Rightarrow> bool" where
  "on_segment p q r =
     (min (x p) (x q) \<le> x r \<and> x r \<le> max (x p) (x q) \<and>
      min (y p) (y q) \<le> y r \<and> y r \<le> max (y p) (y q))"

text \<open>
  The condition of the first \<^verbatim>\<open>if\<close> of \<^verbatim>\<open>intersect\<close>, with the parentheses of the source
  and no others. In C++ \<^verbatim>\<open>&&\<close> binds tighter than \<^verbatim>\<open>||\<close>, as \<open>\<and>\<close> binds tighter than
  \<open>\<or>\<close> here.
\<close>

definition general_case :: "int \<Rightarrow> int \<Rightarrow> int \<Rightarrow> int \<Rightarrow> bool" where
  "general_case d1 d2 d3 d4 =
     ((d1 < 0 \<and> d2 > 0) \<or> (d1 > 0 \<and> d2 < 0) \<and>
      (d3 < 0 \<and> d4 > 0) \<or> (d3 > 0 \<and> d4 < 0))"

definition intersect :: "Point \<Rightarrow> Point \<Rightarrow> Point \<Rightarrow> Point \<Rightarrow> bool" where
  "intersect p1 p2 p3 p4 =
     (let d1 = direction p3 p4 p1;
          d2 = direction p3 p4 p2;
          d3 = direction p1 p2 p3;
          d4 = direction p1 p2 p4
      in if general_case d1 d2 d3 d4 then True
         else if d1 = 0 \<and> on_segment p3 p4 p1 then True
         else if d2 = 0 \<and> on_segment p3 p4 p2 then True
         else if d3 = 0 \<and> on_segment p1 p2 p3 then True
         else if d4 = 0 \<and> on_segment p1 p2 p4 then True
         else False)"

text \<open>
  The two readings of that condition which the specification writes out: the one with
  \<^verbatim>\<open>&&\<close> binding tighter than \<^verbatim>\<open>||\<close>, fully parenthesised, and the conjunction of the
  two straddle tests.
\<close>

definition precedence_reading :: "int \<Rightarrow> int \<Rightarrow> int \<Rightarrow> int \<Rightarrow> bool" where
  "precedence_reading d1 d2 d3 d4 =
     ((d1 < 0 \<and> d2 > 0) \<or> ((d1 > 0 \<and> d2 < 0) \<and> (d3 < 0 \<and> d4 > 0)) \<or> (d3 > 0 \<and> d4 < 0))"

definition straddle_conjunction :: "int \<Rightarrow> int \<Rightarrow> int \<Rightarrow> int \<Rightarrow> bool" where
  "straddle_conjunction d1 d2 d3 d4 =
     (((d1 < 0 \<and> d2 > 0) \<or> (d1 > 0 \<and> d2 < 0)) \<and>
      ((d3 < 0 \<and> d4 > 0) \<or> (d3 > 0 \<and> d4 < 0)))"

section \<open>The Jarvis march and \<^verbatim>\<open>direction\<close> on 32-bit \<^verbatim>\<open>int\<close>\<close>

text \<open>
  The point with machine coordinates, and the functions of \<^verbatim>\<open>jarvis_algorithm.cpp\<close>
  and \<^verbatim>\<open>SegmentIntersection::direction\<close> on it, line by line as above but with the
  subtractions, multiplications and comparisons of 32-bit two's complement (\<open><s\<close> is
  the signed order). \<open>point_value\<close> reads a machine point as a point with integer
  coordinates.
\<close>

type_synonym int32 = "32 word"

record Point32 =
  x32 :: int32
  y32 :: int32

definition point_value :: "Point32 \<Rightarrow> Point" where
  "point_value p = \<lparr>x = sint (x32 p), y = sint (y32 p)\<rparr>"

definition orientation32 :: "Point32 \<Rightarrow> Point32 \<Rightarrow> Point32 \<Rightarrow> int" where
  "orientation32 p q r =
     (let val = (y32 q - y32 p) * (x32 r - x32 q) - (x32 q - x32 p) * (y32 r - y32 q)
      in if val = 0 then 0 else if 0 <s val then 1 else 2)"

definition find_leftmost32 :: "Point32 list \<Rightarrow> nat" where
  "find_leftmost32 points =
     fold (\<lambda>i leftmost. if x32 (points ! i) <s x32 (points ! leftmost) then i else leftmost)
       [1..<length points] 0"

definition select_candidate32 :: "Point32 list \<Rightarrow> nat \<Rightarrow> nat \<Rightarrow> nat \<Rightarrow> nat" where
  "select_candidate32 points p i q =
     (if orientation32 (points ! p) (points ! i) (points ! q) = 2 then i else q)"

definition next_vertex32 :: "Point32 list \<Rightarrow> nat \<Rightarrow> nat" where
  "next_vertex32 points p =
     fold (select_candidate32 points p) [0..<length points] ((p + 1) mod length points)"

partial_function (option) hull_loop32 ::
  "Point32 list \<Rightarrow> nat \<Rightarrow> nat \<Rightarrow> Point32 list \<Rightarrow> Point32 list option" where
  "hull_loop32 points leftmost p hull =
     (let hull' = hull @ [points ! p];
          q = next_vertex32 points p
      in if q \<noteq> leftmost then hull_loop32 points leftmost q hull' else Some hull')"

declare hull_loop32.simps [code]

definition getHull32 :: "Point32 list \<Rightarrow> Point32 list option" where
  "getHull32 points =
     (if length points < 3 then Some []
      else let leftmost = find_leftmost32 points
           in hull_loop32 points leftmost leftmost [])"

definition direction32 :: "Point32 \<Rightarrow> Point32 \<Rightarrow> Point32 \<Rightarrow> int32" where
  "direction32 p q r =
     (y32 r - y32 p) * (x32 q - x32 p) - (x32 r - x32 p) * (y32 q - y32 p)"

text \<open>
  A value fits when it is a value of \<^verbatim>\<open>int\<close>. The predicates below say that no
  difference or product formed by one call of \<^verbatim>\<open>orientation\<close>, respectively
  \<^verbatim>\<open>direction\<close>, overflows, and that none does in any call of \<^verbatim>\<open>orientation\<close> on
  three points of an input.
\<close>

definition fits_int :: "int \<Rightarrow> bool" where
  "fits_int v = (- (2 ^ 31) \<le> v \<and> v < 2 ^ 31)"

definition orientation_fits :: "Point \<Rightarrow> Point \<Rightarrow> Point \<Rightarrow> bool" where
  "orientation_fits p q r =
     (fits_int (y q - y p) \<and> fits_int (x r - x q) \<and>
      fits_int (x q - x p) \<and> fits_int (y r - y q) \<and>
      fits_int ((y q - y p) * (x r - x q)) \<and> fits_int ((x q - x p) * (y r - y q)) \<and>
      fits_int ((y q - y p) * (x r - x q) - (x q - x p) * (y r - y q)))"

definition direction_fits :: "Point \<Rightarrow> Point \<Rightarrow> Point \<Rightarrow> bool" where
  "direction_fits p q r =
     (fits_int (y r - y p) \<and> fits_int (x q - x p) \<and>
      fits_int (x r - x p) \<and> fits_int (y q - y p) \<and>
      fits_int ((y r - y p) * (x q - x p)) \<and> fits_int ((x r - x p) * (y q - y p)) \<and>
      fits_int ((y r - y p) * (x q - x p) - (x r - x p) * (y q - y p)))"

definition march_fits :: "Point32 list \<Rightarrow> bool" where
  "march_fits points =
     list_all (\<lambda>p. list_all (\<lambda>i. list_all (\<lambda>q.
        orientation_fits (point_value p) (point_value i) (point_value q)) points) points) points"

section \<open>Convex hull: small inputs and the program's test\<close>

text \<open>
  Claim C4. An input of fewer than three points, the empty one included, makes
  \<^verbatim>\<open>getHull\<close> return the empty sequence.
\<close>

theorem getHull_fewer_than_three:
  "length points < 3 \<Longrightarrow> getHull points = Some []"
  by (simp add: getHull_def)

theorem getHull_fewer_than_three_witness:
  "length [\<lparr>x = 4, y = 1\<rparr>, \<lparr>x = 0, y = 2\<rparr>] < 3 \<and>
   getHull [\<lparr>x = 4, y = 1\<rparr>, \<lparr>x = 0, y = 2\<rparr>] = Some []"
  using getHull_fewer_than_three [of "[\<lparr>x = 4, y = 1\<rparr>, \<lparr>x = 0, y = 2\<rparr>]"] by simp

lemma getHull_test_points:
  "getHull test_points =
     Some [\<lparr>x = 0, y = 3\<rparr>, \<lparr>x = 0, y = 0\<rparr>, \<lparr>x = 3, y = 0\<rparr>, \<lparr>x = 3, y = 3\<rparr>]"
  by code_simp

lemma find_leftmost_test_points: "find_leftmost test_points = 0"
  by code_simp

text \<open>
  Claim C5. On the seven points of the program's test, in the order of the test,
  \<^verbatim>\<open>getHull\<close> returns exactly (0,3), (0,0), (3,0), (3,3) in that order; the first of
  them is the point at the index the leftmost search selects, (0,3).
\<close>

theorem getHull_exact_case:
  "getHull [\<lparr>x = 0, y = 3\<rparr>, \<lparr>x = 2, y = 2\<rparr>, \<lparr>x = 1, y = 1\<rparr>, \<lparr>x = 2, y = 1\<rparr>,
            \<lparr>x = 3, y = 0\<rparr>, \<lparr>x = 0, y = 0\<rparr>, \<lparr>x = 3, y = 3\<rparr>]
     = Some [\<lparr>x = 0, y = 3\<rparr>, \<lparr>x = 0, y = 0\<rparr>, \<lparr>x = 3, y = 0\<rparr>, \<lparr>x = 3, y = 3\<rparr>]
   \<and> test_points ! find_leftmost test_points = \<lparr>x = 0, y = 3\<rparr>
   \<and> Min (x ` set test_points) = x (test_points ! find_leftmost test_points)"
proof -
  have "test_points ! find_leftmost test_points = \<lparr>x = 0, y = 3\<rparr>"
    by (simp add: find_leftmost_test_points) (simp add: test_points_def)
  moreover have "Min (x ` set test_points) = 0"
    by (simp add: test_points_def)
  ultimately show ?thesis
    using getHull_test_points by (simp add: test_points_def)
qed

section \<open>Convex hull: the returned points are input points\<close>

text \<open>Every index the two loops produce is an index of the input.\<close>

lemma select_candidate_less:
  "i < n \<Longrightarrow> q < n \<Longrightarrow> select_candidate points p i q < n"
  by (simp add: select_candidate_def)

lemma fold_select_candidate_less:
  "(\<And>i. i \<in> set js \<Longrightarrow> i < n) \<Longrightarrow> q < n \<Longrightarrow> fold (select_candidate points p) js q < n"
  by (induction js arbitrary: q) (simp_all add: select_candidate_less)

lemma next_vertex_less:
  "points \<noteq> [] \<Longrightarrow> next_vertex points p < length points"
  unfolding next_vertex_def
  by (rule fold_select_candidate_less) simp_all

lemma fold_leftmost_less:
  "(\<And>i. i \<in> set js \<Longrightarrow> i < n) \<Longrightarrow> l < n \<Longrightarrow>
   fold (\<lambda>i leftmost. if x (points ! i) < x (points ! leftmost) then i else leftmost) js l < n"
  by (induction js arbitrary: l) simp_all

lemma find_leftmost_less:
  "points \<noteq> [] \<Longrightarrow> find_leftmost points < length points"
  unfolding find_leftmost_def
  by (rule fold_leftmost_less) simp_all

lemma hull_loop_subset_aux:
  assumes "hull_loop points leftmost p hull = Some result"
  shows "p < length points \<and> set hull \<subseteq> set points \<longrightarrow> set result \<subseteq> set points"
proof (rule hull_loop.raw_induct
    [where P = "\<lambda>ps l p h r. p < length ps \<and> set h \<subseteq> set ps \<longrightarrow> set r \<subseteq> set ps",
     OF _ assms])
  fix loop :: "Point list \<Rightarrow> nat \<Rightarrow> nat \<Rightarrow> Point list \<Rightarrow> Point list option"
  fix ps :: "Point list" and l p :: nat and h r :: "Point list"
  assume IH: "\<And>ps l p h r. loop ps l p h = Some r \<Longrightarrow>
                p < length ps \<and> set h \<subseteq> set ps \<longrightarrow> set r \<subseteq> set ps"
  assume step: "(let hull' = h @ [ps ! p]; q = next_vertex ps p
                 in if q \<noteq> l then loop ps l q hull' else Some hull') = Some r"
  show "p < length ps \<and> set h \<subseteq> set ps \<longrightarrow> set r \<subseteq> set ps"
  proof
    assume a: "p < length ps \<and> set h \<subseteq> set ps"
    then have ne: "ps \<noteq> []" by auto
    have q: "next_vertex ps p < length ps"
      by (rule next_vertex_less [OF ne])
    have h': "set (h @ [ps ! p]) \<subseteq> set ps"
      using a by simp
    show "set r \<subseteq> set ps"
    proof (cases "next_vertex ps p \<noteq> l")
      case True
      with step have "loop ps l (next_vertex ps p) (h @ [ps ! p]) = Some r"
        by (simp add: Let_def)
      from IH [OF this] q h' show ?thesis by blast
    next
      case False
      with step have "r = h @ [ps ! p]"
        by (simp add: Let_def)
      with h' show ?thesis by simp
    qed
  qed
qed

lemma hull_loop_subset:
  "hull_loop points leftmost p hull = Some result \<Longrightarrow>
   p < length points \<Longrightarrow> set hull \<subseteq> set points \<Longrightarrow> set result \<subseteq> set points"
  using hull_loop_subset_aux by blast

text \<open>
  Claim C3. Whenever \<^verbatim>\<open>getHull\<close> returns, every point of the returned sequence is a
  point of the input sequence (equal in both coordinates): nothing is synthesised.
\<close>

theorem getHull_members:
  "getHull points = Some hull \<Longrightarrow> set hull \<subseteq> set points"
proof (cases "length points < 3")
  case True
  assume "getHull points = Some hull"
  with True show ?thesis by (simp add: getHull_def)
next
  case False
  assume a: "getHull points = Some hull"
  from False have ne: "points \<noteq> []" by auto
  from a False have
    "hull_loop points (find_leftmost points) (find_leftmost points) [] = Some hull"
    by (simp add: getHull_def Let_def)
  from hull_loop_subset [OF this find_leftmost_less [OF ne]] show ?thesis by simp
qed

theorem getHull_members_witness:
  "getHull test_points =
     Some [\<lparr>x = 0, y = 3\<rparr>, \<lparr>x = 0, y = 0\<rparr>, \<lparr>x = 3, y = 0\<rparr>, \<lparr>x = 3, y = 3\<rparr>]
   \<and> set [\<lparr>x = 0, y = 3\<rparr>, \<lparr>x = 0, y = 0\<rparr>, \<lparr>x = 3, y = 0\<rparr>, \<lparr>x = 3, y = 3\<rparr>]
       \<subseteq> set test_points"
  using getHull_members [OF getHull_test_points] getHull_test_points by simp

section \<open>Convex hull: a run that never leaves the loop\<close>

text \<open>
  On \<open>edge_points\<close> the leftmost search keeps index 0, the point (0,1). From there the
  march goes to index 3, then 1, then 2, then 3 again: index 0 is never a successor,
  so \<^verbatim>\<open>p != leftmost\<close> holds after every round.
\<close>

lemma edge_points_steps:
  "find_leftmost edge_points = 0"
  "next_vertex edge_points 0 = 3"
  "next_vertex edge_points 3 = 1"
  "next_vertex edge_points 1 = 2"
  "next_vertex edge_points 2 = 3"
  by code_simp+

lemma edge_points_cycle:
  assumes "hull_loop points leftmost p hull = Some result"
  shows "\<not> (points = edge_points \<and> leftmost = 0 \<and> p \<in> {1, 2, 3})"
proof (rule hull_loop.raw_induct
    [where P = "\<lambda>ps l p h r. \<not> (ps = edge_points \<and> l = 0 \<and> p \<in> {1, 2, 3})",
     OF _ assms])
  fix loop :: "Point list \<Rightarrow> nat \<Rightarrow> nat \<Rightarrow> Point list \<Rightarrow> Point list option"
  fix ps :: "Point list" and l p :: nat and h r :: "Point list"
  assume IH: "\<And>ps l p h r. loop ps l p h = Some r \<Longrightarrow>
                \<not> (ps = edge_points \<and> l = 0 \<and> p \<in> {1, 2, 3})"
  assume step: "(let hull' = h @ [ps ! p]; q = next_vertex ps p
                 in if q \<noteq> l then loop ps l q hull' else Some hull') = Some r"
  have s1: "next_vertex edge_points (Suc 0) = 2"
    using edge_points_steps(4) by simp
  show "\<not> (ps = edge_points \<and> l = 0 \<and> p \<in> {1, 2, 3})"
  proof
    assume c: "ps = edge_points \<and> l = 0 \<and> p \<in> {1, 2, 3}"
    then have nz: "next_vertex ps p \<noteq> l" and nc: "next_vertex ps p \<in> {1, 2, 3}"
      by (auto simp: edge_points_steps s1)
    from step nz have "loop ps l (next_vertex ps p) (h @ [ps ! p]) = Some r"
      by (simp add: Let_def)
    from IH [OF this] c nc show False by blast
  qed
qed

text \<open>
  Claim C2 says that \<^verbatim>\<open>getHull\<close> terminates and returns on every finite input. On the
  four distinct points (0,1), (0,2), (0,0), (1,0) the loop of \<^verbatim>\<open>getHull\<close> never
  terminates: the embedding has no result there.
\<close>

theorem getHull_edge_points_diverges:
  "getHull [\<lparr>x = 0, y = 1\<rparr>, \<lparr>x = 0, y = 2\<rparr>, \<lparr>x = 0, y = 0\<rparr>, \<lparr>x = 1, y = 0\<rparr>] = None"
proof -
  have "hull_loop edge_points 0 0 [] = hull_loop edge_points 0 3 [edge_points ! 0]"
    by (subst hull_loop.simps) (simp add: edge_points_steps Let_def)
  moreover have "hull_loop edge_points 0 3 [edge_points ! 0] = None"
    using edge_points_cycle [of edge_points 0 3 "[edge_points ! 0]"]
    by (cases "hull_loop edge_points 0 3 [edge_points ! 0]") simp_all
  moreover have "getHull edge_points = hull_loop edge_points 0 0 []"
    by (simp add: getHull_def edge_points_steps Let_def) (simp add: edge_points_def)
  ultimately show ?thesis by (simp add: edge_points_def)
qed

section \<open>Convex hull: the cross product of the specification\<close>

lemma cross_product_swap: "cross_product p r q = - cross_product p q r"
  by (simp add: cross_product_def algebra_simps)

lemma orientation_cross_product:
  "orientation p q r =
     (if cross_product p q r = 0 then 0 else if cross_product p q r > 0 then 1 else 2)"
  by (simp add: orientation_def cross_product_def Let_def)

section \<open>Agreement of the 32-bit arithmetic with the exact arithmetic\<close>

lemma sint_sub_exact:
  "fits_int (sint a - sint b) \<Longrightarrow> sint (a - b :: int32) = sint a - sint b"
  by (simp add: sint_word_ariths fits_int_def signed_take_bit_int_eq_self)

lemma sint_mult_exact:
  "fits_int (sint a * sint b) \<Longrightarrow> sint (a * b :: int32) = sint a * sint b"
  by (simp add: sint_word_ariths fits_int_def signed_take_bit_int_eq_self)

text \<open>
  Where nothing overflows, the machine \<^verbatim>\<open>orientation\<close> and \<^verbatim>\<open>direction\<close> return what the
  exact ones return on the points read as integers.
\<close>

lemma orientation32_exact:
  assumes "orientation_fits (point_value p) (point_value q) (point_value r)"
  shows "orientation32 p q r = orientation (point_value p) (point_value q) (point_value r)"
proof -
  let ?v = "(y32 q - y32 p) * (x32 r - x32 q) - (x32 q - x32 p) * (y32 r - y32 q)"
  let ?c = "cross_product (point_value p) (point_value q) (point_value r)"
  have v: "sint ?v = ?c"
    using assms
    by (simp add: orientation_fits_def point_value_def cross_product_def
          sint_sub_exact sint_mult_exact)
  have "(sint ?v = 0) = (?v = 0)"
    by (rule signed_eq_0_iff)
  with v have z: "(?v = 0) = (?c = 0)"
    by simp
  have l: "(0 <s ?v) = (0 < ?c)"
    using v by (simp add: word_sless_alt)
  show ?thesis
    by (simp only: orientation32_def Let_def z l orientation_cross_product)
qed

lemma direction32_exact:
  assumes "direction_fits (point_value p) (point_value q) (point_value r)"
  shows "sint (direction32 p q r) = direction (point_value p) (point_value q) (point_value r)"
  using assms
  by (simp add: direction_fits_def point_value_def direction32_def direction_def
        sint_sub_exact sint_mult_exact)

lemma orientation_fits_test_points:
  "orientation_fits \<lparr>x = 0, y = 3\<rparr> \<lparr>x = 2, y = 2\<rparr> \<lparr>x = 1, y = 1\<rparr>"
  by (simp add: orientation_fits_def fits_int_def)

text \<open>
  The same for the march: on an input on which no call of \<^verbatim>\<open>orientation\<close> overflows, the
  machine \<^verbatim>\<open>getHull\<close> and the exact one take the same steps, return the same points or
  both never return.
\<close>

lemma march_fits_nth:
  "march_fits points \<Longrightarrow> p < length points \<Longrightarrow> i < length points \<Longrightarrow> q < length points \<Longrightarrow>
   orientation_fits (point_value (points ! p)) (point_value (points ! i)) (point_value (points ! q))"
  by (simp add: march_fits_def list_all_iff)

lemma select_candidate32_exact:
  assumes "march_fits points" "p < length points" "i < length points" "q < length points"
  shows "select_candidate32 points p i q = select_candidate (map point_value points) p i q"
  using assms orientation32_exact [OF march_fits_nth [OF assms]]
  by (simp add: select_candidate32_def select_candidate_def)

lemma fold_select_candidate32_exact:
  assumes "march_fits points" "p < length points"
  shows "(\<And>i. i \<in> set js \<Longrightarrow> i < length points) \<Longrightarrow> q < length points \<Longrightarrow>
         fold (select_candidate32 points p) js q
           = fold (select_candidate (map point_value points) p) js q"
proof (induction js arbitrary: q)
  case Nil
  then show ?case by simp
next
  case (Cons j js)
  have j: "j < length points" using Cons.prems(1) by simp
  have e: "select_candidate32 points p j q = select_candidate (map point_value points) p j q"
    by (rule select_candidate32_exact [OF assms j Cons.prems(2)])
  have l: "select_candidate (map point_value points) p j q < length points"
    by (rule select_candidate_less [OF j Cons.prems(2)])
  show ?case
    using Cons.IH [OF _ l] Cons.prems(1) e by simp
qed

lemma next_vertex32_exact:
  assumes "march_fits points" "p < length points"
  shows "next_vertex32 points p = next_vertex (map point_value points) p"
proof -
  from assms(2) have "points \<noteq> []"
    by auto
  then have "(p + 1) mod length points < length points"
    by simp
  from fold_select_candidate32_exact [OF assms _ this, of "[0..<length points]"]
  show ?thesis
    by (simp add: next_vertex32_def next_vertex_def)
qed

lemma fold_leftmost32_exact:
  "(\<And>i. i \<in> set js \<Longrightarrow> i < length points) \<Longrightarrow> l < length points \<Longrightarrow>
   fold (\<lambda>i leftmost. if x32 (points ! i) <s x32 (points ! leftmost) then i else leftmost) js l
     = fold (\<lambda>i leftmost. if x (map point_value points ! i) < x (map point_value points ! leftmost)
                           then i else leftmost) js l"
  by (induction js arbitrary: l) (simp_all add: point_value_def word_sless_alt)

lemma find_leftmost32_exact:
  "points \<noteq> [] \<Longrightarrow> find_leftmost32 points = find_leftmost (map point_value points)"
  unfolding find_leftmost32_def find_leftmost_def
  using fold_leftmost32_exact [of "[1..<length points]" points 0] by simp

lemma hull_loop32_sound:
  assumes "hull_loop32 points leftmost p hull = Some result"
  shows "march_fits points \<and> p < length points \<longrightarrow>
         hull_loop (map point_value points) leftmost p (map point_value hull)
           = Some (map point_value result)"
proof (rule hull_loop32.raw_induct
    [where P = "\<lambda>ps l p h r. march_fits ps \<and> p < length ps \<longrightarrow>
                  hull_loop (map point_value ps) l p (map point_value h)
                    = Some (map point_value r)",
     OF _ assms])
  fix loop :: "Point32 list \<Rightarrow> nat \<Rightarrow> nat \<Rightarrow> Point32 list \<Rightarrow> Point32 list option"
  fix ps :: "Point32 list" and l p :: nat and h r :: "Point32 list"
  assume IH: "\<And>ps l p h r. loop ps l p h = Some r \<Longrightarrow>
                march_fits ps \<and> p < length ps \<longrightarrow>
                hull_loop (map point_value ps) l p (map point_value h)
                  = Some (map point_value r)"
  assume step: "(let hull' = h @ [ps ! p]; q = next_vertex32 ps p
                 in if q \<noteq> l then loop ps l q hull' else Some hull') = Some r"
  show "march_fits ps \<and> p < length ps \<longrightarrow>
        hull_loop (map point_value ps) l p (map point_value h) = Some (map point_value r)"
  proof
    assume a: "march_fits ps \<and> p < length ps"
    then have ne: "map point_value ps \<noteq> []" by auto
    have nv: "next_vertex32 ps p = next_vertex (map point_value ps) p"
      using a by (simp add: next_vertex32_exact)
    have q: "next_vertex32 ps p < length ps"
      using next_vertex_less [OF ne, of p] nv by simp
    have hp: "map point_value (h @ [ps ! p]) = map point_value h @ [map point_value ps ! p]"
      using a by simp
    show "hull_loop (map point_value ps) l p (map point_value h) = Some (map point_value r)"
    proof (cases "next_vertex32 ps p \<noteq> l")
      case True
      with step have "loop ps l (next_vertex32 ps p) (h @ [ps ! p]) = Some r"
        by (simp add: Let_def)
      from IH [OF this] a q
      have "hull_loop (map point_value ps) l (next_vertex32 ps p)
              (map point_value (h @ [ps ! p])) = Some (map point_value r)"
        by blast
      with True nv hp show ?thesis
        by (subst hull_loop.simps) (simp add: Let_def)
    next
      case False
      with step have "r = h @ [ps ! p]"
        by (simp add: Let_def)
      with False nv hp show ?thesis
        by (subst hull_loop.simps) (simp add: Let_def)
    qed
  qed
qed

lemma hull_loop32_complete:
  assumes "hull_loop points' leftmost p hull' = Some result'"
  shows "\<forall>points hull. points' = map point_value points \<and> hull' = map point_value hull \<and>
           march_fits points \<and> p < length points \<longrightarrow>
           (\<exists>result. hull_loop32 points leftmost p hull = Some result)"
proof (rule hull_loop.raw_induct
    [where P = "\<lambda>ps' l p h' r'. \<forall>ps h. ps' = map point_value ps \<and> h' = map point_value h \<and>
                  march_fits ps \<and> p < length ps \<longrightarrow>
                  (\<exists>r. hull_loop32 ps l p h = Some r)",
     OF _ assms])
  fix loop :: "Point list \<Rightarrow> nat \<Rightarrow> nat \<Rightarrow> Point list \<Rightarrow> Point list option"
  fix ps' :: "Point list" and l p :: nat and h' r' :: "Point list"
  assume IH: "\<And>ps' l p h' r'. loop ps' l p h' = Some r' \<Longrightarrow>
                \<forall>ps h. ps' = map point_value ps \<and> h' = map point_value h \<and>
                  march_fits ps \<and> p < length ps \<longrightarrow>
                  (\<exists>r. hull_loop32 ps l p h = Some r)"
  assume step: "(let hull' = h' @ [ps' ! p]; q = next_vertex ps' p
                 in if q \<noteq> l then loop ps' l q hull' else Some hull') = Some r'"
  show "\<forall>ps h. ps' = map point_value ps \<and> h' = map point_value h \<and>
          march_fits ps \<and> p < length ps \<longrightarrow> (\<exists>r. hull_loop32 ps l p h = Some r)"
  proof (intro allI impI)
    fix ps h
    assume a: "ps' = map point_value ps \<and> h' = map point_value h \<and>
               march_fits ps \<and> p < length ps"
    then have ne: "map point_value ps \<noteq> []" by auto
    have nv: "next_vertex32 ps p = next_vertex ps' p"
      using a by (simp add: next_vertex32_exact)
    have q: "next_vertex32 ps p < length ps"
      using next_vertex_less [OF ne, of p] nv a by simp
    have hp: "h' @ [ps' ! p] = map point_value (h @ [ps ! p])"
      using a by simp
    show "\<exists>r. hull_loop32 ps l p h = Some r"
    proof (cases "next_vertex32 ps p \<noteq> l")
      case True
      with step nv have "loop ps' l (next_vertex32 ps p) (h' @ [ps' ! p]) = Some r'"
        by (simp add: Let_def)
      from IH [OF this] a q hp
      obtain r where "hull_loop32 ps l (next_vertex32 ps p) (h @ [ps ! p]) = Some r"
        by blast
      with True have "hull_loop32 ps l p h = Some r"
        by (subst hull_loop32.simps) (simp add: Let_def)
      then show ?thesis ..
    next
      case False
      then have "hull_loop32 ps l p h = Some (h @ [ps ! p])"
        by (subst hull_loop32.simps) (simp add: Let_def)
      then show ?thesis ..
    qed
  qed
qed

lemma hull_loop32_exact:
  assumes "march_fits points" "p < length points"
  shows "hull_loop (map point_value points) leftmost p (map point_value hull)
           = map_option (map point_value) (hull_loop32 points leftmost p hull)"
proof (cases "hull_loop32 points leftmost p hull")
  case (Some r)
  with hull_loop32_sound [OF Some] assms show ?thesis by simp
next
  case None
  have "hull_loop (map point_value points) leftmost p (map point_value hull) = None"
  proof (cases "hull_loop (map point_value points) leftmost p (map point_value hull)")
    case None
    then show ?thesis .
  next
    case (Some r')
    from hull_loop32_complete [OF Some] assms
    obtain r where "hull_loop32 points leftmost p hull = Some r" by blast
    with None show ?thesis by simp
  qed
  with None show ?thesis by simp
qed

lemma getHull32_exact:
  assumes "march_fits points"
  shows "getHull (map point_value points) = map_option (map point_value) (getHull32 points)"
proof (cases "length points < 3")
  case True
  then show ?thesis by (simp add: getHull_def getHull32_def)
next
  case False
  then have ne: "points \<noteq> []" by auto
  then have ne': "map point_value points \<noteq> []" by simp
  have l: "find_leftmost32 points = find_leftmost (map point_value points)"
    by (rule find_leftmost32_exact [OF ne])
  have "find_leftmost32 points < length points"
    using find_leftmost_less [OF ne'] l by simp
  from hull_loop32_exact [OF assms this, of "find_leftmost32 points" "[]"] False l
  show ?thesis
    by (simp add: getHull_def getHull32_def Let_def)
qed

section \<open>Convex hull: the candidate update on 32-bit \<^verbatim>\<open>int\<close>\<close>

text \<open>
  Claim C6 says that in every pass of the inner loop the candidate \<^verbatim>\<open>q\<close> becomes \<^verbatim>\<open>i\<close>
  exactly when the triplet (\<^verbatim>\<open>points[p]\<close>, \<^verbatim>\<open>points[q]\<close>, \<^verbatim>\<open>points[i]\<close>) is clockwise,
  that is, when the cross product of the specification is positive on it. On 32-bit
  \<^verbatim>\<open>int\<close> this fails where the value computed by \<^verbatim>\<open>orientation(points[p], points[i],
  points[q])\<close> overflows. For p = (0,0), q = (0,32768), i = (-65536,0) the cross product
  on (p, q, i) is -2147483648, which fits and is negative (also the machine
  \<^verbatim>\<open>orientation\<close> of (p, q, i) is 2, not 1), while the value for (p, i, q) is 2147483648
  and wraps to a negative number: \<^verbatim>\<open>q\<close> is replaced. For p = (0,0), q = (0,65536),
  i = (65536,0) the cross product on (p, q, i) is 4294967296, positive, while the value
  for (p, i, q) wraps to 0: \<^verbatim>\<open>q\<close> stays.
\<close>

theorem candidate_replaced_overflow_counterexample:
  "select_candidate32 [\<lparr>x32 = 0, y32 = 0\<rparr>, \<lparr>x32 = 0, y32 = 32768\<rparr>, \<lparr>x32 = - 65536, y32 = 0\<rparr>] 0 2 1 = 2
   \<and> cross_product (point_value \<lparr>x32 = 0, y32 = 0\<rparr>) (point_value \<lparr>x32 = 0, y32 = 32768\<rparr>)
        (point_value \<lparr>x32 = - 65536, y32 = 0\<rparr>) = - 2147483648
   \<and> \<not> clockwise (point_value \<lparr>x32 = 0, y32 = 0\<rparr>) (point_value \<lparr>x32 = 0, y32 = 32768\<rparr>)
        (point_value \<lparr>x32 = - 65536, y32 = 0\<rparr>)
   \<and> orientation32 \<lparr>x32 = 0, y32 = 0\<rparr> \<lparr>x32 = 0, y32 = 32768\<rparr> \<lparr>x32 = - 65536, y32 = 0\<rparr> = 2
   \<and> select_candidate32 [\<lparr>x32 = 0, y32 = 0\<rparr>, \<lparr>x32 = 0, y32 = 65536\<rparr>, \<lparr>x32 = 65536, y32 = 0\<rparr>] 0 2 1 = 1
   \<and> clockwise (point_value \<lparr>x32 = 0, y32 = 0\<rparr>) (point_value \<lparr>x32 = 0, y32 = 65536\<rparr>)
        (point_value \<lparr>x32 = 65536, y32 = 0\<rparr>)"
  by (simp add: select_candidate32_def orientation32_def clockwise_def cross_product_def
        point_value_def word_sless_alt)

text \<open>
  Claim C6, amended. In a pass of the inner loop in which no difference or product
  formed by \<^verbatim>\<open>orientation(points[p], points[i], points[q])\<close> overflows \<^verbatim>\<open>int\<close>, the
  candidate \<^verbatim>\<open>q\<close> becomes \<^verbatim>\<open>i\<close> exactly when the triplet (\<^verbatim>\<open>points[p]\<close>, \<^verbatim>\<open>points[q]\<close>,
  \<^verbatim>\<open>points[i]\<close>) is clockwise, that is, when the cross product of the specification is
  positive on it; the test of the code, \<^verbatim>\<open>orientation(points[p], points[i], points[q])
  == 2\<close>, is equivalent to that.
\<close>

theorem candidate_replaced_iff_clockwise_no_overflow:
  assumes "orientation_fits (point_value (points ! p)) (point_value (points ! i))
             (point_value (points ! q))"
  shows "select_candidate32 points p i q =
           (if clockwise (point_value (points ! p)) (point_value (points ! q))
                 (point_value (points ! i)) then i else q)
         \<and> (orientation32 (points ! p) (points ! i) (points ! q) = 2)
             = clockwise (point_value (points ! p)) (point_value (points ! q))
                 (point_value (points ! i))"
  by (simp add: select_candidate32_def orientation32_exact [OF assms] clockwise_def
        orientation_cross_product cross_product_swap [of _ "point_value (points ! i)"])

theorem candidate_replaced_iff_clockwise_no_overflow_witness:
  "orientation_fits
     (point_value ([\<lparr>x32 = 0, y32 = 3\<rparr>, \<lparr>x32 = 2, y32 = 2\<rparr>, \<lparr>x32 = 0, y32 = 0\<rparr>] ! 0))
     (point_value ([\<lparr>x32 = 0, y32 = 3\<rparr>, \<lparr>x32 = 2, y32 = 2\<rparr>, \<lparr>x32 = 0, y32 = 0\<rparr>] ! 2))
     (point_value ([\<lparr>x32 = 0, y32 = 3\<rparr>, \<lparr>x32 = 2, y32 = 2\<rparr>, \<lparr>x32 = 0, y32 = 0\<rparr>] ! 1))
   \<and> select_candidate32 [\<lparr>x32 = 0, y32 = 3\<rparr>, \<lparr>x32 = 2, y32 = 2\<rparr>, \<lparr>x32 = 0, y32 = 0\<rparr>] 0 2 1 = 2
   \<and> clockwise \<lparr>x = 0, y = 3\<rparr> \<lparr>x = 2, y = 2\<rparr> \<lparr>x = 0, y = 0\<rparr>
   \<and> orientation32 \<lparr>x32 = 0, y32 = 3\<rparr> \<lparr>x32 = 0, y32 = 0\<rparr> \<lparr>x32 = 2, y32 = 2\<rparr> = 2"
proof -
  have f: "orientation_fits
     (point_value ([\<lparr>x32 = 0, y32 = 3\<rparr>, \<lparr>x32 = 2, y32 = 2\<rparr>, \<lparr>x32 = 0, y32 = 0\<rparr>] ! 0))
     (point_value ([\<lparr>x32 = 0, y32 = 3\<rparr>, \<lparr>x32 = 2, y32 = 2\<rparr>, \<lparr>x32 = 0, y32 = 0\<rparr>] ! 2))
     (point_value ([\<lparr>x32 = 0, y32 = 3\<rparr>, \<lparr>x32 = 2, y32 = 2\<rparr>, \<lparr>x32 = 0, y32 = 0\<rparr>] ! 1))"
    by (simp add: orientation_fits_def fits_int_def point_value_def)
  have c: "clockwise \<lparr>x = 0, y = 3\<rparr> \<lparr>x = 2, y = 2\<rparr> \<lparr>x = 0, y = 0\<rparr>"
    by (simp add: clockwise_def cross_product_def)
  from candidate_replaced_iff_clockwise_no_overflow [OF f] f c show ?thesis
    by (simp add: point_value_def)
qed

section \<open>Segment intersection: the degenerate rule\<close>

text \<open>
  Claim C8. For the segment (0,0)-(2,0) and the one-point segment (1,0)-(1,0),
  \<^verbatim>\<open>intersect\<close> returns true: the general-position test does not hold, the direction
  value \<^verbatim>\<open>d3\<close> is zero, and the point (1,0) lies in the bounding box of (0,0)-(2,0).
\<close>

theorem intersect_touching_case:
  "intersect \<lparr>x = 0, y = 0\<rparr> \<lparr>x = 2, y = 0\<rparr> \<lparr>x = 1, y = 0\<rparr> \<lparr>x = 1, y = 0\<rparr>
   \<and> \<not> general_case
         (direction \<lparr>x = 1, y = 0\<rparr> \<lparr>x = 1, y = 0\<rparr> \<lparr>x = 0, y = 0\<rparr>)
         (direction \<lparr>x = 1, y = 0\<rparr> \<lparr>x = 1, y = 0\<rparr> \<lparr>x = 2, y = 0\<rparr>)
         (direction \<lparr>x = 0, y = 0\<rparr> \<lparr>x = 2, y = 0\<rparr> \<lparr>x = 1, y = 0\<rparr>)
         (direction \<lparr>x = 0, y = 0\<rparr> \<lparr>x = 2, y = 0\<rparr> \<lparr>x = 1, y = 0\<rparr>)
   \<and> direction \<lparr>x = 0, y = 0\<rparr> \<lparr>x = 2, y = 0\<rparr> \<lparr>x = 1, y = 0\<rparr> = 0
   \<and> on_segment \<lparr>x = 0, y = 0\<rparr> \<lparr>x = 2, y = 0\<rparr> \<lparr>x = 1, y = 0\<rparr>"
  by (simp add: intersect_def general_case_def direction_def on_segment_def)

section \<open>Segment intersection: the general-position test\<close>

text \<open>
  Taking the branch makes \<^verbatim>\<open>intersect\<close> return true, and where no direction value is
  zero nothing else does.
\<close>

lemma intersect_general_case:
  "general_case (direction p3 p4 p1) (direction p3 p4 p2)
     (direction p1 p2 p3) (direction p1 p2 p4) \<Longrightarrow> intersect p1 p2 p3 p4"
  by (simp add: intersect_def)

lemma intersect_general_position:
  "direction p3 p4 p1 \<noteq> 0 \<Longrightarrow> direction p3 p4 p2 \<noteq> 0 \<Longrightarrow>
   direction p1 p2 p3 \<noteq> 0 \<Longrightarrow> direction p1 p2 p4 \<noteq> 0 \<Longrightarrow>
   intersect p1 p2 p3 p4 =
     general_case (direction p3 p4 p1) (direction p3 p4 p2)
       (direction p1 p2 p3) (direction p1 p2 p4)"
  by (simp add: intersect_def)

lemma intersect_cases:
  "intersect p1 p2 p3 p4 =
     (precedence_reading (direction p3 p4 p1) (direction p3 p4 p2)
        (direction p1 p2 p3) (direction p1 p2 p4)
      \<or> (direction p3 p4 p1 = 0 \<and> on_segment p3 p4 p1)
      \<or> (direction p3 p4 p2 = 0 \<and> on_segment p3 p4 p2)
      \<or> (direction p1 p2 p3 = 0 \<and> on_segment p1 p2 p3)
      \<or> (direction p1 p2 p4 = 0 \<and> on_segment p1 p2 p4))"
  by (auto simp add: intersect_def Let_def general_case_def precedence_reading_def)

text \<open>
  Claim C7. For every four points, with d1..d4 their four direction values in the
  order of the source, \<^verbatim>\<open>intersect\<close> returns true from its general-position branch
  exactly when \<^verbatim>\<open>(d1<0 && d2>0) || ((d1>0 && d2<0) && (d3<0 && d4>0)) || (d3>0 && d4<0)\<close>
  holds: the result of \<^verbatim>\<open>intersect\<close> is that expression or one of the four collinear
  tests, and the condition of the branch is that expression. It is not the conjunction
  of the two straddle tests: for the segments (5,-1)-(5,1) and (0,0)-(1,0) no direction
  value is zero and the conjunction fails, yet \<^verbatim>\<open>intersect\<close> returns true.
\<close>

theorem intersect_general_branch_precedence:
  "intersect p1 p2 p3 p4 =
     (precedence_reading (direction p3 p4 p1) (direction p3 p4 p2)
        (direction p1 p2 p3) (direction p1 p2 p4)
      \<or> (direction p3 p4 p1 = 0 \<and> on_segment p3 p4 p1)
      \<or> (direction p3 p4 p2 = 0 \<and> on_segment p3 p4 p2)
      \<or> (direction p1 p2 p3 = 0 \<and> on_segment p1 p2 p3)
      \<or> (direction p1 p2 p4 = 0 \<and> on_segment p1 p2 p4))
   \<and> general_case (direction p3 p4 p1) (direction p3 p4 p2)
         (direction p1 p2 p3) (direction p1 p2 p4)
       = precedence_reading (direction p3 p4 p1) (direction p3 p4 p2)
           (direction p1 p2 p3) (direction p1 p2 p4)
   \<and> intersect \<lparr>x = 5, y = -1\<rparr> \<lparr>x = 5, y = 1\<rparr> \<lparr>x = 0, y = 0\<rparr> \<lparr>x = 1, y = 0\<rparr>
   \<and> direction \<lparr>x = 0, y = 0\<rparr> \<lparr>x = 1, y = 0\<rparr> \<lparr>x = 5, y = -1\<rparr> \<noteq> 0
   \<and> direction \<lparr>x = 0, y = 0\<rparr> \<lparr>x = 1, y = 0\<rparr> \<lparr>x = 5, y = 1\<rparr> \<noteq> 0
   \<and> direction \<lparr>x = 5, y = -1\<rparr> \<lparr>x = 5, y = 1\<rparr> \<lparr>x = 0, y = 0\<rparr> \<noteq> 0
   \<and> direction \<lparr>x = 5, y = -1\<rparr> \<lparr>x = 5, y = 1\<rparr> \<lparr>x = 1, y = 0\<rparr> \<noteq> 0
   \<and> \<not> straddle_conjunction
         (direction \<lparr>x = 0, y = 0\<rparr> \<lparr>x = 1, y = 0\<rparr> \<lparr>x = 5, y = -1\<rparr>)
         (direction \<lparr>x = 0, y = 0\<rparr> \<lparr>x = 1, y = 0\<rparr> \<lparr>x = 5, y = 1\<rparr>)
         (direction \<lparr>x = 5, y = -1\<rparr> \<lparr>x = 5, y = 1\<rparr> \<lparr>x = 0, y = 0\<rparr>)
         (direction \<lparr>x = 5, y = -1\<rparr> \<lparr>x = 5, y = 1\<rparr> \<lparr>x = 1, y = 0\<rparr>)"
proof -
  have "general_case (direction p3 p4 p1) (direction p3 p4 p2)
          (direction p1 p2 p3) (direction p1 p2 p4)
        = precedence_reading (direction p3 p4 p1) (direction p3 p4 p2)
            (direction p1 p2 p3) (direction p1 p2 p4)"
    by (simp add: general_case_def precedence_reading_def)
  moreover have
    "intersect \<lparr>x = 5, y = -1\<rparr> \<lparr>x = 5, y = 1\<rparr> \<lparr>x = 0, y = 0\<rparr> \<lparr>x = 1, y = 0\<rparr>"
    by (simp add: intersect_def general_case_def direction_def)
  moreover have
    "direction \<lparr>x = 0, y = 0\<rparr> \<lparr>x = 1, y = 0\<rparr> \<lparr>x = 5, y = -1\<rparr> = -1"
    "direction \<lparr>x = 0, y = 0\<rparr> \<lparr>x = 1, y = 0\<rparr> \<lparr>x = 5, y = 1\<rparr> = 1"
    "direction \<lparr>x = 5, y = -1\<rparr> \<lparr>x = 5, y = 1\<rparr> \<lparr>x = 0, y = 0\<rparr> = 10"
    "direction \<lparr>x = 5, y = -1\<rparr> \<lparr>x = 5, y = 1\<rparr> \<lparr>x = 1, y = 0\<rparr> = 8"
    by (simp_all add: direction_def)
  ultimately show ?thesis
    using intersect_cases [of p1 p2 p3 p4]
    by (simp add: straddle_conjunction_def)
qed

text \<open>The branch is taken whenever both straddle tests hold; the converse is what fails.\<close>

lemma straddle_conjunction_general_case:
  "straddle_conjunction d1 d2 d3 d4 \<Longrightarrow> general_case d1 d2 d3 d4"
  by (auto simp: general_case_def straddle_conjunction_def)

text \<open>
  Claim C1 says that in general position \<^verbatim>\<open>intersect\<close> returns true exactly when both
  pairs of endpoints straddle. For the segments (5,-1)-(5,1) and (0,0)-(1,0) the four
  direction values are -1, 1, 10 and 8, all nonzero; the endpoints (0,0) and (1,0) lie
  on the same side of the line x = 5, and \<^verbatim>\<open>intersect\<close> returns true.
\<close>

theorem intersect_true_without_straddle:
  "direction \<lparr>x = 0, y = 0\<rparr> \<lparr>x = 1, y = 0\<rparr> \<lparr>x = 5, y = -1\<rparr> = -1
   \<and> direction \<lparr>x = 0, y = 0\<rparr> \<lparr>x = 1, y = 0\<rparr> \<lparr>x = 5, y = 1\<rparr> = 1
   \<and> direction \<lparr>x = 5, y = -1\<rparr> \<lparr>x = 5, y = 1\<rparr> \<lparr>x = 0, y = 0\<rparr> = 10
   \<and> direction \<lparr>x = 5, y = -1\<rparr> \<lparr>x = 5, y = 1\<rparr> \<lparr>x = 1, y = 0\<rparr> = 8
   \<and> intersect \<lparr>x = 5, y = -1\<rparr> \<lparr>x = 5, y = 1\<rparr> \<lparr>x = 0, y = 0\<rparr> \<lparr>x = 1, y = 0\<rparr>
   \<and> \<not> straddle_conjunction (-1) 1 10 8"
  by (simp add: intersect_def general_case_def direction_def on_segment_def
        straddle_conjunction_def)

text \<open>
  Claim C10 says that \<^verbatim>\<open>intersect\<close> gives the same answer when the two segments are
  exchanged. For the same two segments it returns true in one order and false in the
  other.
\<close>

theorem intersect_not_symmetric:
  "intersect \<lparr>x = 5, y = -1\<rparr> \<lparr>x = 5, y = 1\<rparr> \<lparr>x = 0, y = 0\<rparr> \<lparr>x = 1, y = 0\<rparr>
   \<and> \<not> intersect \<lparr>x = 0, y = 0\<rparr> \<lparr>x = 1, y = 0\<rparr> \<lparr>x = 5, y = -1\<rparr> \<lparr>x = 5, y = 1\<rparr>"
  by (simp add: intersect_def general_case_def direction_def on_segment_def)

end
